theory Spec2Isabelle
  imports Main
begin

section \<open>Operator chaining for yarpl Single (SingleOperator.h)\<close>

text \<open>
  The header defines three class templates: \<^verbatim>\<open>SingleOperator<U, D>\<close> with its nested
  \<^verbatim>\<open>SingleSubscription\<close> (the bridge between two pipeline stages), \<^verbatim>\<open>MapOperator<U, D, F>\<close>
  which overrides the bridge's \<^verbatim>\<open>onSuccess\<close>, and \<^verbatim>\<open>FromPublisherOperator<T, OnSubscribe>\<close>.

  The objects of a running pipeline refer to each other in cycles (the bridge is the observer
  of its upstream and the subscription of its downstream), so they live in an explicit store
  and every \<^verbatim>\<open>Reference<T>\<close> is an address into it. A \<^verbatim>\<open>Reference\<close> member that may be
  empty (after \<^verbatim>\<open>reset()\<close>, or before it is assigned) is an optional address. Reference counts
  are not modelled: an object stays in the store once allocated.

  Value types: the store holds the objects of every stage, so a single value type \<open>'a\<close> stands
  for both \<^verbatim>\<open>U\<close> and \<^verbatim>\<open>D\<close>; \<open>'e\<close> is \<^verbatim>\<open>std::exception_ptr\<close>, and \<open>'x\<close> is what a transform
  function may throw.

  Names: a member \<^verbatim>\<open>name_\<close> of the source is the selector \<open>name_m\<close> here, since a name
  cannot end with an underscore. \<^verbatim>\<open>SingleOperator::subscribe\<close> (lines 24-27) has the body of
  \<^verbatim>\<open>MapOperator::subscribe\<close>, which overrides it; the base bridge declares no
  \<^verbatim>\<open>onSuccess\<close>, so every bridge in the store is the one of \<^verbatim>\<open>MapOperator\<close>.
\<close>

subsection \<open>Data\<close>

type_synonym ref = nat

text \<open>The virtual calls that travel along a pipeline: the three methods of
  \<^verbatim>\<open>SingleObserver<T>\<close> and \<^verbatim>\<open>cancel()\<close> of \<^verbatim>\<open>SingleSubscription\<close>.\<close>

datatype ('a, 'e) call = OnSubscribe ref | OnSuccess 'a | OnError 'e | Cancel

text \<open>
  A \<^verbatim>\<open>Single\<close> is immutable after construction, so it is a value. \<^verbatim>\<open>MapOperator\<close> has the
  members \<^verbatim>\<open>upstream_\<close> and \<^verbatim>\<open>function_\<close>; the function returns \<open>Inr\<close> of its result or
  \<open>Inl\<close> of what it throws. The callback wrapped by \<^verbatim>\<open>FromPublisherOperator\<close> is given the
  subscriber and drives it: it is represented by the sequence of calls it makes on that
  subscriber.
\<close>

datatype ('a, 'e, 'x) single =
    FromPublisherOperator "('a, 'e) call list"
  | MapOperator (upstream_m: "('a, 'e, 'x) single") (function_m: "'a \<Rightarrow> 'x + 'a")

text \<open>What the downstream consumer does with the handle it is given in \<^verbatim>\<open>onSubscribe\<close>.\<close>

datatype reaction = Keep | CancelOnSubscribe

text \<open>
  The objects in the store. \<open>SingleSubscription\<close> is the bridge, with the three members
  declared at lines 68, 74 and 80 of the header.

  The two ends of a pipeline are not defined in this header: \<open>Observer\<close> is a consumer
  that records every call it receives, in order, and either keeps the handle or calls
  \<^verbatim>\<open>cancel()\<close> on it from inside \<^verbatim>\<open>onSubscribe\<close>; \<open>Upstream\<close> is the source's
  cancellation handle, which counts the \<^verbatim>\<open>cancel()\<close> calls it gets.
\<close>

datatype ('a, 'e, 'x) object =
    SingleSubscription
      (flowable_m: "('a, 'e, 'x) single")
      (subscriber_m: "ref option")
      (upstreamSubscription_m: "ref option")
  | Observer (received: "('a, 'e) call list") (policy: reaction)
  | Upstream (cancelled: nat)

text \<open>
  The world: the store, the next unused address (for \<^verbatim>\<open>new\<close>), and a record of the
  arguments with which any \<^verbatim>\<open>function_\<close> was invoked (instrumentation: the source keeps no
  such record, it makes "the transform was never invoked" observable).
\<close>

record ('a, 'e, 'x) world =
  heap :: "ref \<Rightarrow> ('a, 'e, 'x) object option"
  fresh :: ref
  applied :: "'a list"

text \<open>
  How a call can end other than by returning: a call through an empty \<^verbatim>\<open>Reference\<close>, a call
  on an address that holds no object, a method the object's class does not have, a
  \<^verbatim>\<open>static_cast\<close> to the wrong class, an exception thrown by a transform function, and the
  model's own bound on the depth of nested calls.
\<close>

datatype 'x fault = NullReference | Dangling | NotUnderstood | BadCast | Thrown 'x | OutOfFuel

datatype ('x, 'w) outcome = Normal 'w | Abrupt "'x fault" 'w

definition and_then ::
  "('x, 'w) outcome \<Rightarrow> ('w \<Rightarrow> ('x, 'w) outcome) \<Rightarrow> ('x, 'w) outcome" where
  "and_then r k = (case r of Normal w \<Rightarrow> k w | Abrupt f w \<Rightarrow> Abrupt f w)"

type_synonym ('a, 'e, 'x) send =
  "ref \<Rightarrow> ('a, 'e) call \<Rightarrow> ('a, 'e, 'x) world \<Rightarrow> ('x, ('a, 'e, 'x) world) outcome"

subsection \<open>The bridge: \<^verbatim>\<open>SingleOperator<U, D>::SingleSubscription\<close>\<close>

text \<open>Each method takes \<open>send\<close>, the virtual call on another object, and \<open>this\<close>.\<close>

text \<open>\<^verbatim>\<open>upstreamSubscription_.reset()\<close>\<close>

definition reset_upstreamSubscription ::
  "ref \<Rightarrow> ('a, 'e, 'x) world \<Rightarrow> ('x, ('a, 'e, 'x) world) outcome" where
  "reset_upstreamSubscription this w =
     (case heap w this of
        Some (SingleSubscription fl s u) \<Rightarrow>
          Normal (w\<lparr>heap := (heap w)(this \<mapsto> SingleSubscription fl s None)\<rparr>)
      | _ \<Rightarrow> Abrupt Dangling w)"

text \<open>Lines 50-55: store the upstream handle, then notify the downstream with \<open>this\<close>.\<close>

definition SingleSubscription_onSubscribe ::
  "('a, 'e, 'x) send \<Rightarrow> ref \<Rightarrow> ref \<Rightarrow> ('a, 'e, 'x) world \<Rightarrow> ('x, ('a, 'e, 'x) world) outcome" where
  "SingleSubscription_onSubscribe send this subscription w =
     (case heap w this of
        Some (SingleSubscription fl s u) \<Rightarrow>
          (let w1 = w\<lparr>heap := (heap w)(this \<mapsto> SingleSubscription fl s (Some subscription))\<rparr>
           in case s of
                None \<Rightarrow> Abrupt NullReference w1
              | Some sub \<Rightarrow> send sub (OnSubscribe this) w1)
      | _ \<Rightarrow> Abrupt Dangling w)"

text \<open>Lines 57-60.\<close>

definition SingleSubscription_onError ::
  "('a, 'e, 'x) send \<Rightarrow> ref \<Rightarrow> 'e \<Rightarrow> ('a, 'e, 'x) world \<Rightarrow> ('x, ('a, 'e, 'x) world) outcome" where
  "SingleSubscription_onError send this error w =
     (case heap w this of
        Some (SingleSubscription fl s u) \<Rightarrow>
          (case s of
             None \<Rightarrow> Abrupt NullReference w
           | Some sub \<Rightarrow>
               and_then (send sub (OnError error) w) (reset_upstreamSubscription this))
      | _ \<Rightarrow> Abrupt Dangling w)"

text \<open>Lines 62-64.\<close>

definition SingleSubscription_cancel ::
  "('a, 'e, 'x) send \<Rightarrow> ref \<Rightarrow> ('a, 'e, 'x) world \<Rightarrow> ('x, ('a, 'e, 'x) world) outcome" where
  "SingleSubscription_cancel send this w =
     (case heap w this of
        Some (SingleSubscription fl s u) \<Rightarrow>
          (case u of
             None \<Rightarrow> Abrupt NullReference w
           | Some up \<Rightarrow> send up Cancel w)
      | _ \<Rightarrow> Abrupt Dangling w)"

text \<open>Lines 46-48, the body of the destructor: \<^verbatim>\<open>subscriber_.reset()\<close>.\<close>

definition SingleSubscription_dtor :: "('a, 'e, 'x) object \<Rightarrow> ('a, 'e, 'x) object" where
  "SingleSubscription_dtor obj =
     (case obj of
        SingleSubscription fl s u \<Rightarrow> SingleSubscription fl None u
      | _ \<Rightarrow> obj)"

subsection \<open>\<^verbatim>\<open>MapOperator<U, D, F>::SingleSubscription::onSuccess\<close>\<close>

text \<open>
  Lines 114-123. The argument \<^verbatim>\<open>map->function_(std::move(value))\<close> is evaluated before
  the call on the subscriber; when it throws, neither that call nor the \<^verbatim>\<open>reset()\<close> after
  it is reached.
\<close>

definition MapOperator_SingleSubscription_onSuccess ::
  "('a, 'e, 'x) send \<Rightarrow> ref \<Rightarrow> 'a \<Rightarrow> ('a, 'e, 'x) world \<Rightarrow> ('x, ('a, 'e, 'x) world) outcome" where
  "MapOperator_SingleSubscription_onSuccess send this val w =
     (case heap w this of
        Some (SingleSubscription fl s u) \<Rightarrow>
          (case fl of
             MapOperator up f \<Rightarrow>
               (let w1 = w\<lparr>applied := applied w @ [val]\<rparr>
                in case f val of
                     Inl x \<Rightarrow> Abrupt (Thrown x) w1
                   | Inr y \<Rightarrow>
                       (case s of
                          None \<Rightarrow> Abrupt NullReference w1
                        | Some sub \<Rightarrow>
                            and_then (send sub (OnSuccess y) w1)
                              (reset_upstreamSubscription this)))
           | FromPublisherOperator cb \<Rightarrow> Abrupt BadCast w)
      | _ \<Rightarrow> Abrupt Dangling w)"

subsection \<open>The two ends of a pipeline\<close>

text \<open>
  Modelled from the spec: the Consumer contract (\<^verbatim>\<open>SingleObserver.h\<close> is missing). The
  consumer appends every \<^verbatim>\<open>onSubscribe\<close>, \<^verbatim>\<open>onSuccess\<close> and \<^verbatim>\<open>onError\<close> it
  receives to its record; one with the reaction \<open>CancelOnSubscribe\<close> calls \<^verbatim>\<open>cancel()\<close> on
  the handle before it returns from \<^verbatim>\<open>onSubscribe\<close>. It has no \<^verbatim>\<open>cancel()\<close> of its own.
\<close>

definition Observer_receive ::
  "('a, 'e, 'x) send \<Rightarrow> ref \<Rightarrow> ('a, 'e) call \<Rightarrow> ('a, 'e, 'x) world \<Rightarrow>
   ('x, ('a, 'e, 'x) world) outcome" where
  "Observer_receive send this c w =
     (case heap w this of
        Some (Observer log p) \<Rightarrow>
          (let w1 = w\<lparr>heap := (heap w)(this \<mapsto> Observer (log @ [c]) p)\<rparr>
           in case c of
                OnSubscribe h \<Rightarrow> (if p = CancelOnSubscribe then send h Cancel w1 else Normal w1)
              | OnSuccess v \<Rightarrow> Normal w1
              | OnError e \<Rightarrow> Normal w1
              | Cancel \<Rightarrow> Abrupt NotUnderstood w)
      | _ \<Rightarrow> Abrupt Dangling w)"

text \<open>
  Modelled from the spec: the Cancellation handle contract (\<^verbatim>\<open>SingleSubscription.h\<close> is
  missing), for the handle of the original source. \<^verbatim>\<open>cancel()\<close> is its only method; the
  handle counts the calls.
\<close>

definition Upstream_receive ::
  "ref \<Rightarrow> ('a, 'e) call \<Rightarrow> ('a, 'e, 'x) world \<Rightarrow> ('x, ('a, 'e, 'x) world) outcome" where
  "Upstream_receive this c w =
     (case heap w this of
        Some (Upstream k) \<Rightarrow>
          (case c of
             Cancel \<Rightarrow> Normal (w\<lparr>heap := (heap w)(this \<mapsto> Upstream (Suc k))\<rparr>)
           | _ \<Rightarrow> Abrupt NotUnderstood w)
      | _ \<Rightarrow> Abrupt Dangling w)"

subsection \<open>Virtual dispatch\<close>

text \<open>
  A call on a reference runs the method of the class of the object found there. Calls nest
  (a bridge calls its subscriber, which may call back), and nothing in the store bounds the
  nesting, so the depth is bounded by fuel.
\<close>

primrec deliver :: "nat \<Rightarrow> ('a, 'e, 'x) send" where
  "deliver 0 = (\<lambda>target c w. Abrupt OutOfFuel w)"
| "deliver (Suc n) = (\<lambda>target c w.
     case heap w target of
       None \<Rightarrow> Abrupt Dangling w
     | Some (SingleSubscription fl s u) \<Rightarrow>
         (case c of
            OnSubscribe h \<Rightarrow> SingleSubscription_onSubscribe (deliver n) target h w
          | OnSuccess v \<Rightarrow> MapOperator_SingleSubscription_onSuccess (deliver n) target v w
          | OnError e \<Rightarrow> SingleSubscription_onError (deliver n) target e w
          | Cancel \<Rightarrow> SingleSubscription_cancel (deliver n) target w)
     | Some (Observer log p) \<Rightarrow> Observer_receive (deliver n) target c w
     | Some (Upstream k) \<Rightarrow> Upstream_receive target c w)"

subsection \<open>\<^verbatim>\<open>subscribe\<close>\<close>

text \<open>The wrapped callback at work: it makes its calls on the subscriber, in order; a call
  that ends abruptly ends the callback. (The subscriber is a \<^verbatim>\<open>SingleObserver\<close>, so a
  callback has no \<open>Cancel\<close> among its calls.)\<close>

primrec run_callback ::
  "('a, 'e, 'x) send \<Rightarrow> ('a, 'e) call list \<Rightarrow> ref \<Rightarrow> ('a, 'e, 'x) world \<Rightarrow>
   ('x, ('a, 'e, 'x) world) outcome" where
  "run_callback send [] subscriber w = Normal w"
| "run_callback send (c # cs) subscriber w =
     (case send subscriber c w of
        Normal w1 \<Rightarrow> run_callback send cs subscriber w1
      | Abrupt f w1 \<Rightarrow> Abrupt f w1)"

text \<open>Lines 135-137.\<close>

definition FromPublisherOperator_subscribe ::
  "('a, 'e, 'x) send \<Rightarrow> ('a, 'e) call list \<Rightarrow> ref \<Rightarrow> ('a, 'e, 'x) world \<Rightarrow>
   ('x, ('a, 'e, 'x) world) outcome" where
  "FromPublisherOperator_subscribe send callback subscriber w =
     run_callback send callback subscriber w"

text \<open>\<^verbatim>\<open>new SingleSubscription(flowable, subscriber)\<close>, the constructor of lines 41-44 and
  107-112: the upstream reference starts empty.\<close>

definition new_SingleSubscription ::
  "('a, 'e, 'x) single \<Rightarrow> ref \<Rightarrow> ('a, 'e, 'x) world \<Rightarrow> ref \<times> ('a, 'e, 'x) world" where
  "new_SingleSubscription flowable subscriber w =
     (fresh w,
      w\<lparr>heap := (heap w)(fresh w \<mapsto> SingleSubscription flowable (Some subscriber) None),
        fresh := Suc (fresh w)\<rparr>)"

text \<open>Lines 97-102; \<open>upstream_subscribe\<close> is \<^verbatim>\<open>upstream_->subscribe\<close>.\<close>

definition MapOperator_subscribe ::
  "(ref \<Rightarrow> ('a, 'e, 'x) world \<Rightarrow> ('x, ('a, 'e, 'x) world) outcome) \<Rightarrow>
   ('a, 'e, 'x) single \<Rightarrow> ref \<Rightarrow> ('a, 'e, 'x) world \<Rightarrow> ('x, ('a, 'e, 'x) world) outcome" where
  "MapOperator_subscribe upstream_subscribe this subscriber w =
     (case new_SingleSubscription this subscriber w of
        (bridge, w1) \<Rightarrow> upstream_subscribe bridge w1)"

primrec subscribe ::
  "('a, 'e, 'x) single \<Rightarrow> nat \<Rightarrow> ref \<Rightarrow> ('a, 'e, 'x) world \<Rightarrow>
   ('x, ('a, 'e, 'x) world) outcome" where
  "subscribe (FromPublisherOperator callback) =
     (\<lambda>fuel. FromPublisherOperator_subscribe (deliver fuel) callback)"
| "subscribe (MapOperator up f) =
     (\<lambda>fuel. MapOperator_subscribe (subscribe up fuel) (MapOperator up f))"

subsection \<open>Observations\<close>

text \<open>What the consumer at \<open>c\<close> has received, and what the bridge at \<open>b\<close> holds.\<close>

definition received_by :: "ref \<Rightarrow> ('a, 'e, 'x) world \<Rightarrow> ('a, 'e) call list" where
  "received_by c w = (case heap w c of Some (Observer log p) \<Rightarrow> log | _ \<Rightarrow> [])"

definition upstream_held :: "ref \<Rightarrow> ('a, 'e, 'x) world \<Rightarrow> ref option" where
  "upstream_held b w =
     (case heap w b of Some (SingleSubscription fl s u) \<Rightarrow> u | _ \<Rightarrow> None)"

definition subscriber_held :: "ref \<Rightarrow> ('a, 'e, 'x) world \<Rightarrow> ref option" where
  "subscriber_held b w =
     (case heap w b of Some (SingleSubscription fl s u) \<Rightarrow> s | _ \<Rightarrow> None)"

definition cancels_seen :: "ref \<Rightarrow> ('a, 'e, 'x) world \<Rightarrow> nat" where
  "cancels_seen h w = (case heap w h of Some (Upstream k) \<Rightarrow> k | _ \<Rightarrow> 0)"

fun is_terminal :: "('a, 'e) call \<Rightarrow> bool" where
  "is_terminal (OnSuccess v) = True"
| "is_terminal (OnError e) = True"
| "is_terminal _ = False"

fun is_success :: "('a, 'e) call \<Rightarrow> bool" where
  "is_success (OnSuccess v) = True"
| "is_success _ = False"

fun is_error :: "('a, 'e) call \<Rightarrow> bool" where
  "is_error (OnError e) = True"
| "is_error _ = False"

text \<open>Whether a call returned, and the world it left behind (also when it did not return).\<close>

definition returned :: "('x, 'w) outcome \<Rightarrow> bool" where
  "returned r = (case r of Normal w \<Rightarrow> True | Abrupt f w \<Rightarrow> False)"

definition final :: "('x, 'w) outcome \<Rightarrow> 'w" where
  "final r = (case r of Normal w \<Rightarrow> w | Abrupt f w \<Rightarrow> w)"

text \<open>What a map bridge with the total transform \<open>f\<close> hands on for a terminal call it gets.\<close>

fun relay :: "('a \<Rightarrow> 'a) \<Rightarrow> ('a, 'e) call \<Rightarrow> ('a, 'e) call" where
  "relay f (OnSuccess v) = OnSuccess (f v)"
| "relay f t = t"

subsection \<open>Concrete pipelines\<close>

text \<open>
  Values are integers, errors and thrown exceptions are strings. \<open>world0\<close> has a recording
  consumer at address 0 and the source's handle at address 1; the first bridge allocated in it
  gets address 2.
\<close>

definition world0 :: "reaction \<Rightarrow> (int, string, string) world" where
  "world0 p = \<lparr>heap = [0 \<mapsto> Observer [] p, 1 \<mapsto> Upstream 0], fresh = 2, applied = []\<rparr>"

definition double :: "int \<Rightarrow> string + int" where
  "double = (\<lambda>x. Inr (x * 2))"

definition throwing :: "int \<Rightarrow> string + int" where
  "throwing = (\<lambda>x. Inl ''bad'')"

text \<open>A source that hands out its handle and emits nothing, mapped with \<open>double\<close>.\<close>

definition silent_map :: "(int, string, string) single" where
  "silent_map = MapOperator (FromPublisherOperator [OnSubscribe 1]) double"

text \<open>A source that fails with \<^verbatim>\<open>"boom"\<close>, mapped with \<open>double\<close>.\<close>

definition failing_map :: "(int, string, string) single" where
  "failing_map = MapOperator (FromPublisherOperator [OnSubscribe 1, OnError ''boom'']) double"

text \<open>The consumer at 0 subscribed to \<open>silent_map\<close>; then the same after it has called
  \<^verbatim>\<open>cancel()\<close> on its handle, the bridge at 2; then the same after the source has
  nevertheless called \<^verbatim>\<open>onSuccess(5)\<close> on the bridge.\<close>

definition subscribed_world :: "(int, string, string) world" where
  "subscribed_world = final (subscribe silent_map 4 0 (world0 Keep))"

definition cancelled_world :: "(int, string, string) world" where
  "cancelled_world = final (deliver 4 2 Cancel subscribed_world)"

definition late_success_world :: "(int, string, string) world" where
  "late_success_world = final (deliver 4 2 (OnSuccess 5) cancelled_world)"

text \<open>A bridge just constructed (not yet subscribed) in front of a consumer that cancels
  from inside \<^verbatim>\<open>onSubscribe\<close>.\<close>

definition constructed_world :: "(int, string, string) world" where
  "constructed_world = snd (new_SingleSubscription silent_map 0 (world0 CancelOnSubscribe))"


text \<open>The consumer at 0 subscribed to a silent source mapped with \<open>throwing\<close>.\<close>

definition throwing_world :: "(int, string, string) world" where
  "throwing_world =
     final (subscribe (MapOperator (FromPublisherOperator [OnSubscribe 1]) throwing) 4 0
              (world0 Keep))"

section \<open>Basic facts\<close>

lemma returned_simps [simp]: "returned (Normal w)" "\<not> returned (Abrupt f w)"
  by (simp_all add: returned_def)

lemma final_simps [simp]: "final (Normal w) = w" "final (Abrupt f w) = w"
  by (simp_all add: final_def)

lemmas method_defs = SingleSubscription_onSubscribe_def SingleSubscription_onError_def
  SingleSubscription_cancel_def MapOperator_SingleSubscription_onSuccess_def
  Observer_receive_def Upstream_receive_def reset_upstreamSubscription_def and_then_def

lemmas subscribe_defs = MapOperator_subscribe_def FromPublisherOperator_subscribe_def
  new_SingleSubscription_def

lemmas observe_defs = received_by_def upstream_held_def subscriber_held_def cancels_seen_def

lemma fuel_ge1: "0 < fuel \<Longrightarrow> \<exists>n. fuel = Suc n"
  by (cases fuel) simp_all

lemma fuel_ge2: "2 \<le> fuel \<Longrightarrow> \<exists>n. fuel = Suc (Suc n)"
  by presburger

lemma fuel_ge4: "4 \<le> fuel \<Longrightarrow> \<exists>n. fuel = Suc (Suc (Suc (Suc n)))"
  by presburger

lemma fuel_ge6: "6 \<le> fuel \<Longrightarrow> \<exists>n. fuel = Suc (Suc (Suc (Suc (Suc (Suc n)))))"
  by presburger

section \<open>The success and error paths through a map stage\<close>

text \<open>
  Claim C1. For every value \<open>v\<close> and every (total) transform \<open>f\<close>: a consumer subscribed to
  a \<open>MapOperator\<close> over a source that hands out its handle and then calls
  \<^verbatim>\<open>onSuccess(v)\<close> on the bridge receives, after \<^verbatim>\<open>onSubscribe\<close> with the bridge as
  handle, exactly one \<^verbatim>\<open>onSuccess\<close>, whose argument is \<open>f v\<close>, and no \<^verbatim>\<open>onError\<close>.
  The consumer and the source's handle exist before the subscription; the bridge is the
  object allocated by \<^verbatim>\<open>subscribe\<close>. Four nested calls are enough for a consumer that
  cancels at once, two for one that does not.
\<close>

theorem map_delivers_transformed_value:
  assumes c: "heap w c = Some (Observer [] p)"
    and h: "heap w h = Some (Upstream k)"
    and alloc: "c < fresh w" "h < fresh w"
    and fuel: "4 \<le> fuel"
  shows "returned (subscribe (MapOperator (FromPublisherOperator [OnSubscribe h, OnSuccess v])
                     (\<lambda>x. Inr (f x))) fuel c w) \<and>
     received_by c (final (subscribe (MapOperator (FromPublisherOperator [OnSubscribe h, OnSuccess v])
                     (\<lambda>x. Inr (f x))) fuel c w))
       = [OnSubscribe (fresh w), OnSuccess (f v)] \<and>
     filter is_success (received_by c (final (subscribe
         (MapOperator (FromPublisherOperator [OnSubscribe h, OnSuccess v])
                     (\<lambda>x. Inr (f x))) fuel c w)))
       = [OnSuccess (f v)] \<and>
     filter is_error (received_by c (final (subscribe
         (MapOperator (FromPublisherOperator [OnSubscribe h, OnSuccess v])
                     (\<lambda>x. Inr (f x))) fuel c w)))
       = []"
proof -
  have ne: "c \<noteq> fresh w" "h \<noteq> fresh w" "c \<noteq> h" using c h alloc by auto
  obtain n where n: "fuel = Suc (Suc (Suc (Suc n)))" using fuel_ge4 [OF fuel] by blast
  show ?thesis
    using c h ne unfolding n
    by (cases p) (simp_all add: subscribe_defs method_defs observe_defs)
qed

theorem map_delivers_transformed_value_witness:
  "heap (world0 Keep) 0 = Some (Observer [] Keep) \<and>
   heap (world0 Keep) 1 = Some (Upstream 0) \<and>
   0 < fresh (world0 Keep) \<and> 1 < fresh (world0 Keep) \<and> (4::nat) \<le> 4 \<and>
   returned (subscribe (MapOperator (FromPublisherOperator [OnSubscribe 1, OnSuccess 5]) double)
               4 0 (world0 Keep)) \<and>
   received_by 0 (final (subscribe
       (MapOperator (FromPublisherOperator [OnSubscribe 1, OnSuccess 5]) double)
               4 0 (world0 Keep)))
     = [OnSubscribe 2, OnSuccess 10]"
  using map_delivers_transformed_value
    [where w = "world0 Keep" and c = 0 and p = Keep and h = 1 and k = 0 and fuel = 4
       and v = 5 and f = "\<lambda>x. x * 2"]
  by (simp add: world0_def double_def)

text \<open>
  Claim C2. For every error \<open>e\<close> and every transform: a consumer subscribed to a
  \<open>MapOperator\<close> over a source that hands out its handle and then calls \<^verbatim>\<open>onError(e)\<close>
  on the bridge receives exactly one \<^verbatim>\<open>onError\<close>, with \<open>e\<close> itself, and no
  \<^verbatim>\<open>onSuccess\<close>; the transform is not invoked (the record of invocations is unchanged).
\<close>

theorem map_forwards_error_unmodified:
  assumes c: "heap w c = Some (Observer [] p)"
    and h: "heap w h = Some (Upstream k)"
    and alloc: "c < fresh w" "h < fresh w"
    and fuel: "4 \<le> fuel"
  shows "returned (subscribe (MapOperator (FromPublisherOperator [OnSubscribe h, OnError e]) f)
                     fuel c w) \<and>
     received_by c (final (subscribe (MapOperator (FromPublisherOperator [OnSubscribe h, OnError e]) f)
                     fuel c w))
       = [OnSubscribe (fresh w), OnError e] \<and>
     filter is_error (received_by c (final (subscribe
         (MapOperator (FromPublisherOperator [OnSubscribe h, OnError e]) f) fuel c w)))
       = [OnError e] \<and>
     filter is_success (received_by c (final (subscribe
         (MapOperator (FromPublisherOperator [OnSubscribe h, OnError e]) f) fuel c w)))
       = [] \<and>
     applied (final (subscribe (MapOperator (FromPublisherOperator [OnSubscribe h, OnError e]) f)
                     fuel c w))
       = applied w"
proof -
  have ne: "c \<noteq> fresh w" "h \<noteq> fresh w" "c \<noteq> h" using c h alloc by auto
  obtain n where n: "fuel = Suc (Suc (Suc (Suc n)))" using fuel_ge4 [OF fuel] by blast
  show ?thesis
    using c h ne unfolding n
    by (cases p) (simp_all add: subscribe_defs method_defs observe_defs)
qed

theorem map_forwards_error_unmodified_witness:
  "heap (world0 Keep) 0 = Some (Observer [] Keep) \<and>
   heap (world0 Keep) 1 = Some (Upstream 0) \<and>
   0 < fresh (world0 Keep) \<and> 1 < fresh (world0 Keep) \<and> (4::nat) \<le> 4 \<and>
   returned (subscribe failing_map 4 0 (world0 Keep)) \<and>
   received_by 0 (final (subscribe failing_map 4 0 (world0 Keep)))
     = [OnSubscribe 2, OnError ''boom''] \<and>
   applied (final (subscribe failing_map 4 0 (world0 Keep))) = []"
  using map_forwards_error_unmodified
    [where w = "world0 Keep" and c = 0 and p = Keep and h = 1 and k = 0 and fuel = 4
       and e = "''boom''" and f = double]
  by (simp add: world0_def failing_map_def)

section \<open>Subscription\<close>

text \<open>
  Claim C8. When the upstream calls \<^verbatim>\<open>onSubscribe(h)\<close> on a bridge, the bridge stores
  \<open>h\<close> and then calls \<^verbatim>\<open>onSubscribe\<close> on its downstream consumer with itself as the handle.
  The store comes first: a consumer that calls \<^verbatim>\<open>cancel()\<close> on that handle from inside
  its \<^verbatim>\<open>onSubscribe\<close> reaches \<open>h\<close> (its count of cancellations goes up by one), and
  the call returns.
\<close>

theorem onSubscribe_stores_then_notifies:
  assumes b: "heap w b = Some (SingleSubscription fl (Some c) u)"
    and c: "heap w c = Some (Observer L p)"
    and h: "heap w h = Some (Upstream k)"
    and fuel: "4 \<le> fuel"
  shows "returned (deliver fuel b (OnSubscribe h) w) \<and>
     upstream_held b (final (deliver fuel b (OnSubscribe h) w)) = Some h \<and>
     received_by c (final (deliver fuel b (OnSubscribe h) w)) = L @ [OnSubscribe b] \<and>
     cancels_seen h (final (deliver fuel b (OnSubscribe h) w)) =
       (if p = CancelOnSubscribe then Suc k else k)"
proof -
  have ne: "b \<noteq> c" "b \<noteq> h" "c \<noteq> h" using b c h by auto
  obtain n where n: "fuel = Suc (Suc (Suc (Suc n)))" using fuel_ge4 [OF fuel] by blast
  show ?thesis
    using b c h ne unfolding n
    by (cases p) (simp_all add: method_defs observe_defs)
qed

theorem onSubscribe_stores_then_notifies_witness:
  "heap constructed_world 2 = Some (SingleSubscription silent_map (Some 0) None) \<and>
   heap constructed_world 0 = Some (Observer [] CancelOnSubscribe) \<and>
   heap constructed_world 1 = Some (Upstream 0) \<and> (4::nat) \<le> 4 \<and>
   returned (deliver 4 2 (OnSubscribe 1) constructed_world) \<and>
   upstream_held 2 (final (deliver 4 2 (OnSubscribe 1) constructed_world)) = Some 1 \<and>
   received_by 0 (final (deliver 4 2 (OnSubscribe 1) constructed_world)) = [OnSubscribe 2] \<and>
   cancels_seen 1 (final (deliver 4 2 (OnSubscribe 1) constructed_world)) = 1"
  using onSubscribe_stores_then_notifies
    [where w = constructed_world and b = 2 and fl = silent_map and c = 0 and u = None
       and L = "[]" and p = CancelOnSubscribe and h = 1 and k = 0 and fuel = 4]
  by (simp add: constructed_world_def world0_def new_SingleSubscription_def)

section \<open>Terminal events\<close>










section \<open>Cancellation\<close>

text \<open>
  Claim C4, as amended. Calling \<^verbatim>\<open>cancel()\<close> on a subscribed bridge before any terminal
  event forwards exactly one \<^verbatim>\<open>cancel()\<close> to the stored upstream handle and delivers
  nothing to the downstream consumer. The bridge does not suppress later signals: when the
  upstream makes a terminal call on it afterwards, that call returns and the event is
  delivered to the downstream consumer as usual.
\<close>

theorem cancel_only_forwards_upstream:
  assumes b: "heap w b = Some (SingleSubscription (MapOperator up (\<lambda>x. Inr (f x))) (Some c) (Some h))"
    and c: "heap w c = Some (Observer L p)"
    and h: "heap w h = Some (Upstream k)"
    and t: "is_terminal t"
    and fuel: "2 \<le> fuel"
  shows "returned (deliver fuel b Cancel w) \<and>
     cancels_seen h (final (deliver fuel b Cancel w)) = Suc k \<and>
     received_by c (final (deliver fuel b Cancel w)) = L \<and>
     returned (deliver fuel b t (final (deliver fuel b Cancel w))) \<and>
     received_by c (final (deliver fuel b t (final (deliver fuel b Cancel w)))) = L @ [relay f t] \<and>
     cancels_seen h (final (deliver fuel b t (final (deliver fuel b Cancel w)))) = Suc k"
proof -
  have ne: "b \<noteq> c" "b \<noteq> h" "c \<noteq> h" using b c h by auto
  obtain n where n: "fuel = Suc (Suc n)" using fuel_ge2 [OF fuel] by blast
  show ?thesis
    using b c h ne t unfolding n
    by (cases t) (simp_all add: method_defs observe_defs)
qed

theorem cancel_only_forwards_upstream_witness:
  "heap subscribed_world 2 = Some (SingleSubscription
      (MapOperator (FromPublisherOperator [OnSubscribe 1]) (\<lambda>x. Inr (x * 2))) (Some 0) (Some 1)) \<and>
   heap subscribed_world 0 = Some (Observer [OnSubscribe 2] Keep) \<and>
   heap subscribed_world 1 = Some (Upstream 0) \<and>
   is_terminal (OnError ''boom'' :: (int, string) call) \<and> (2::nat) \<le> 2 \<and>
   returned (deliver 2 2 Cancel subscribed_world) \<and>
   cancels_seen 1 (final (deliver 2 2 Cancel subscribed_world)) = 1 \<and>
   received_by 0 (final (deliver 2 2 Cancel subscribed_world)) = [OnSubscribe 2] \<and>
   received_by 0 (final (deliver 2 2 (OnError ''boom'') (final (deliver 2 2 Cancel subscribed_world))))
     = [OnSubscribe 2, OnError ''boom'']"
  using cancel_only_forwards_upstream
    [where w = subscribed_world and b = 2 and up = "FromPublisherOperator [OnSubscribe 1]"
       and f = "\<lambda>x. x * 2" and c = 0 and h = 1 and L = "[OnSubscribe 2]" and p = Keep
       and k = 0 and t = "OnError ''boom''" and fuel = 2]
  by (simp add: subscribed_world_def silent_map_def double_def world0_def subscribe_defs method_defs eval_nat_numeral)

text \<open>
  Claim C4 as stated fails in its second half. The consumer at 0 subscribes to
  \<open>silent_map\<close>, cancels through its handle (one \<^verbatim>\<open>cancel()\<close> reaches the source's
  handle at 1), and the source then calls \<^verbatim>\<open>onSuccess(5)\<close> on the bridge at 2: the
  consumer is delivered \<^verbatim>\<open>onSuccess(10)\<close> after its cancellation.
\<close>

theorem success_delivered_after_cancel:
  "cancels_seen 1 cancelled_world = 1 \<and>
   received_by 0 cancelled_world = [OnSubscribe 2] \<and>
   returned (deliver 4 2 (OnSuccess 5) cancelled_world) \<and>
   received_by 0 late_success_world = [OnSubscribe 2, OnSuccess 10]"
  by (simp add: late_success_world_def cancelled_world_def subscribed_world_def
      silent_map_def double_def world0_def subscribe_defs method_defs observe_defs eval_nat_numeral)

text \<open>
  Claim C5: entering a Terminated state releases the bridge's reference to the upstream
  handle, in particular after the downstream's \<^verbatim>\<open>cancel()\<close>. The success and error
  paths do release it (both end with \<^verbatim>\<open>upstreamSubscription_.reset()\<close>),
  \<^verbatim>\<open>cancel()\<close> does not: in
  \<open>subscribed_world\<close> the bridge at 2 holds the handle at 1, and after \<^verbatim>\<open>cancel()\<close>
  has returned it still does.
\<close>

theorem cancel_keeps_upstream_handle:
  "upstream_held 2 subscribed_world = Some 1 \<and>
   returned (deliver 4 2 Cancel subscribed_world) \<and>
   cancels_seen 1 cancelled_world = 1 \<and>
   upstream_held 2 cancelled_world = Some 1"
  by (simp add: cancelled_world_def subscribed_world_def silent_map_def double_def world0_def subscribe_defs method_defs observe_defs eval_nat_numeral)

section \<open>A transform that throws\<close>

text \<open>
  Claim C10. If the transform throws when \<^verbatim>\<open>onSuccess(v)\<close> invokes it, the call on the
  bridge ends with that exception (it propagates to the upstream caller), and nothing but
  the record of invocations has changed: the downstream consumer has received neither
  \<^verbatim>\<open>onSuccess\<close> nor \<^verbatim>\<open>onError\<close>, and the bridge still holds the upstream handle it held.
\<close>

theorem throwing_transform_propagates:
  assumes b: "heap w b = Some (SingleSubscription (MapOperator up f) s u)"
    and f: "f v = Inl x"
    and fuel: "0 < fuel"
  shows "deliver fuel b (OnSuccess v) w = Abrupt (Thrown x) (w\<lparr>applied := applied w @ [v]\<rparr>) \<and>
     \<not> returned (deliver fuel b (OnSuccess v) w) \<and>
     heap (final (deliver fuel b (OnSuccess v) w)) = heap w \<and>
     received_by c (final (deliver fuel b (OnSuccess v) w)) = received_by c w \<and>
     upstream_held b (final (deliver fuel b (OnSuccess v) w)) = u"
proof -
  obtain n where n: "fuel = Suc n" using fuel_ge1 [OF fuel] by blast
  show ?thesis
    using b f unfolding n
    by (simp add: method_defs observe_defs)
qed

theorem throwing_transform_propagates_witness:
  "heap throwing_world 2 = Some (SingleSubscription
      (MapOperator (FromPublisherOperator [OnSubscribe 1]) throwing) (Some 0) (Some 1)) \<and>
   throwing 5 = Inl ''bad'' \<and> (0::nat) < 1 \<and>
   deliver 1 2 (OnSuccess 5) throwing_world
     = Abrupt (Thrown ''bad'') (throwing_world\<lparr>applied := applied throwing_world @ [5]\<rparr>) \<and>
   received_by 0 (final (deliver 1 2 (OnSuccess 5) throwing_world)) = [OnSubscribe 2] \<and>
   upstream_held 2 (final (deliver 1 2 (OnSuccess 5) throwing_world)) = Some 1"
  using throwing_transform_propagates
    [where w = throwing_world and b = 2 and up = "FromPublisherOperator [OnSubscribe 1]"
       and f = throwing and s = "Some 0" and u = "Some 1" and v = 5 and x = "''bad''"
       and fuel = 1 and c = 0]
  by (simp add: throwing_world_def throwing_def world0_def subscribe_defs method_defs observe_defs eval_nat_numeral)

section \<open>Two map stages\<close>

text \<open>
  Claim C6. For all (total) transforms \<open>f\<close> and \<open>g\<close> and a source that hands out its handle
  and succeeds with \<open>v\<close>: subscribed to \<^verbatim>\<open>source.map(f).map(g)\<close> or to
  \<^verbatim>\<open>source.map(x -> g(f(x)))\<close>, the consumer receives the same calls, namely
  \<^verbatim>\<open>onSubscribe\<close> with the bridge next to it and then the single \<^verbatim>\<open>onSuccess\<close> with
  \<open>g (f v)\<close>. With two bridges a cancellation from inside \<^verbatim>\<open>onSubscribe\<close> nests six calls.
\<close>

theorem map_map_is_map_of_composition:
  assumes c: "heap w c = Some (Observer [] p)"
    and h: "heap w h = Some (Upstream k)"
    and alloc: "c < fresh w" "h < fresh w"
    and fuel: "6 \<le> fuel"
  shows "returned (subscribe (MapOperator (MapOperator
               (FromPublisherOperator [OnSubscribe h, OnSuccess v])
               (\<lambda>x. Inr (f x))) (\<lambda>x. Inr (g x))) fuel c w) \<and>
     returned (subscribe (MapOperator
               (FromPublisherOperator [OnSubscribe h, OnSuccess v])
               (\<lambda>x. Inr (g (f x)))) fuel c w) \<and>
     received_by c (final (subscribe (MapOperator (MapOperator
               (FromPublisherOperator [OnSubscribe h, OnSuccess v])
               (\<lambda>x. Inr (f x))) (\<lambda>x. Inr (g x))) fuel c w))
       = [OnSubscribe (fresh w), OnSuccess (g (f v))] \<and>
     received_by c (final (subscribe (MapOperator
               (FromPublisherOperator [OnSubscribe h, OnSuccess v])
               (\<lambda>x. Inr (g (f x)))) fuel c w))
       = [OnSubscribe (fresh w), OnSuccess (g (f v))]"
proof -
  have ne: "c \<noteq> fresh w" "h \<noteq> fresh w" "c \<noteq> h" "c \<noteq> Suc (fresh w)" "h \<noteq> Suc (fresh w)"
    using c h alloc by auto
  obtain n where n: "fuel = Suc (Suc (Suc (Suc (Suc (Suc n)))))"
    using fuel_ge6 [OF fuel] by blast
  show ?thesis
    using c h ne unfolding n
    by (cases p) (simp_all add: subscribe_defs method_defs observe_defs)
qed

theorem map_map_is_map_of_composition_witness:
  "heap (world0 CancelOnSubscribe) 0 = Some (Observer [] CancelOnSubscribe) \<and>
   heap (world0 CancelOnSubscribe) 1 = Some (Upstream 0) \<and>
   0 < fresh (world0 CancelOnSubscribe) \<and> 1 < fresh (world0 CancelOnSubscribe) \<and>
   (6::nat) \<le> 6 \<and>
   received_by 0 (final (subscribe (MapOperator (MapOperator
               (FromPublisherOperator [OnSubscribe 1, OnSuccess 5])
               (\<lambda>x. Inr (x * 2))) (\<lambda>x. Inr (x + 1))) 6 0 (world0 CancelOnSubscribe)))
     = [OnSubscribe 2, OnSuccess 11] \<and>
   received_by 0 (final (subscribe (MapOperator
               (FromPublisherOperator [OnSubscribe 1, OnSuccess 5])
               (\<lambda>x. Inr (x * 2 + 1))) 6 0 (world0 CancelOnSubscribe)))
     = [OnSubscribe 2, OnSuccess 11]"
  using map_map_is_map_of_composition
    [where w = "world0 CancelOnSubscribe" and c = 0 and p = CancelOnSubscribe and h = 1
       and k = 0 and fuel = 6 and v = 5 and f = "\<lambda>x. x * 2" and g = "\<lambda>x. x + 1"]
  by (simp add: world0_def)

section \<open>The reference to the downstream consumer\<close>

lemma subscriber_held_upd_bridge:
  "heap w this = Some (SingleSubscription fl s u) \<Longrightarrow>
   subscriber_held a (w\<lparr>heap := (heap w)(this \<mapsto> SingleSubscription fl s u')\<rparr>) =
   subscriber_held a w"
  by (simp add: subscriber_held_def)

lemma subscriber_held_upd_observer:
  "heap w this = Some (Observer L p) \<Longrightarrow>
   subscriber_held a (w\<lparr>heap := (heap w)(this \<mapsto> Observer L' p')\<rparr>) = subscriber_held a w"
  by (simp add: subscriber_held_def)

lemma subscriber_held_upd_upstream:
  "heap w this = Some (Upstream k) \<Longrightarrow>
   subscriber_held a (w\<lparr>heap := (heap w)(this \<mapsto> Upstream k')\<rparr>) = subscriber_held a w"
  by (simp add: subscriber_held_def)

lemma subscriber_held_applied:
  "subscriber_held a (w\<lparr>applied := xs\<rparr>) = subscriber_held a w"
  by (simp add: subscriber_held_def)

lemma reset_keeps_subscriber:
  "subscriber_held a (final (reset_upstreamSubscription this w)) = subscriber_held a w"
  by (auto simp: reset_upstreamSubscription_def subscriber_held_upd_bridge
      split: option.splits object.splits)

lemma and_then_reset_keeps_subscriber:
  "subscriber_held a (final (and_then r (reset_upstreamSubscription this))) =
   subscriber_held a (final r)"
  by (cases r) (simp_all add: and_then_def reset_keeps_subscriber)

text \<open>No method touches \<^verbatim>\<open>subscriber_\<close>, whatever the objects it calls do, as long as
  they do not touch it either.\<close>

lemma methods_keep_subscriber:
  assumes send: "\<And>target t w. subscriber_held a (final (send target t w)) = subscriber_held a w"
  shows "subscriber_held a (final (SingleSubscription_onSubscribe send this h w))
           = subscriber_held a w"
    and "subscriber_held a (final (SingleSubscription_onError send this e w))
           = subscriber_held a w"
    and "subscriber_held a (final (SingleSubscription_cancel send this w))
           = subscriber_held a w"
    and "subscriber_held a (final (MapOperator_SingleSubscription_onSuccess send this v w))
           = subscriber_held a w"
    and "subscriber_held a (final (Observer_receive send this t w)) = subscriber_held a w"
    and "subscriber_held a (final (Upstream_receive this t w)) = subscriber_held a w"
proof -
  show "subscriber_held a (final (SingleSubscription_onSubscribe send this h w))
          = subscriber_held a w"
    by (auto simp: SingleSubscription_onSubscribe_def Let_def send subscriber_held_upd_bridge
        split: option.splits object.splits)
  show "subscriber_held a (final (SingleSubscription_onError send this e w))
          = subscriber_held a w"
    by (auto simp: SingleSubscription_onError_def send and_then_reset_keeps_subscriber
        split: option.splits object.splits)
  show "subscriber_held a (final (SingleSubscription_cancel send this w)) = subscriber_held a w"
    by (auto simp: SingleSubscription_cancel_def send split: option.splits object.splits)
  show "subscriber_held a (final (MapOperator_SingleSubscription_onSuccess send this v w))
          = subscriber_held a w"
    by (auto simp: MapOperator_SingleSubscription_onSuccess_def Let_def send
        and_then_reset_keeps_subscriber subscriber_held_applied
        split: option.splits object.splits single.splits sum.splits)
  show "subscriber_held a (final (Observer_receive send this t w)) = subscriber_held a w"
    by (auto simp: Observer_receive_def Let_def send subscriber_held_upd_observer
        split: option.splits object.splits call.splits)
  show "subscriber_held a (final (Upstream_receive this t w)) = subscriber_held a w"
    by (auto simp: Upstream_receive_def subscriber_held_upd_upstream
        split: option.splits object.splits call.splits)
qed

lemma deliver_keeps_subscriber:
  "subscriber_held a (final (deliver fuel target t w)) = subscriber_held a w"
proof (induction fuel arbitrary: target t w)
  case 0
  show ?case by simp
next
  case (Suc n)
  show ?case
    by (simp add: methods_keep_subscriber [of a "deliver n", OF Suc.IH]
        split: option.splits object.splits call.splits)
qed

text \<open>
  Claim C7, as amended. A bridge holds the reference to its downstream consumer from its
  construction on, and no call releases it: whatever call is made on whatever object, with
  whatever outcome (\<^verbatim>\<open>onSubscribe\<close>, \<^verbatim>\<open>onSuccess\<close>, \<^verbatim>\<open>onError\<close> and
  \<^verbatim>\<open>cancel()\<close> on the bridge itself included), every bridge holds the same consumer
  reference afterwards as before. The reference is released by the bridge's destructor.
\<close>

theorem subscriber_released_only_by_destructor:
  "subscriber_held (fst (new_SingleSubscription fl c w)) (snd (new_SingleSubscription fl c w))
     = Some c \<and>
   subscriber_held b (final (deliver fuel target t w)) = subscriber_held b w \<and>
   subscriber_m (SingleSubscription_dtor (SingleSubscription fl s u)) = None"
proof (intro conjI)
  show "subscriber_held (fst (new_SingleSubscription fl c w))
          (snd (new_SingleSubscription fl c w)) = Some c"
    by (simp add: new_SingleSubscription_def subscriber_held_def)
  show "subscriber_held b (final (deliver fuel target t w)) = subscriber_held b w"
    by (rule deliver_keeps_subscriber)
  show "subscriber_m (SingleSubscription_dtor (SingleSubscription fl s u)) = None"
    by (simp add: SingleSubscription_dtor_def)
qed

text \<open>
  Claim C7 as stated fails in its second half: the reference is not released when a
  terminal event is delivered, nor at cancellation. After the source of \<open>failing_map\<close>
  has called \<^verbatim>\<open>onError\<close> and the consumer at 0 has received it, the bridge at 2 still
  holds the consumer; so it does after \<^verbatim>\<open>cancel()\<close>, and after a delivered success.
\<close>

theorem subscriber_held_after_terminal_event:
  "received_by 0 (final (subscribe failing_map 4 0 (world0 Keep)))
     = [OnSubscribe 2, OnError ''boom''] \<and>
   subscriber_held 2 (final (subscribe failing_map 4 0 (world0 Keep))) = Some 0 \<and>
   subscriber_held 2 cancelled_world = Some 0 \<and>
   subscriber_held 2 late_success_world = Some 0"
  by (simp add: failing_map_def late_success_world_def cancelled_world_def
      subscribed_world_def silent_map_def double_def world0_def subscribe_defs method_defs observe_defs eval_nat_numeral)

section \<open>\<^verbatim>\<open>FromPublisherOperator\<close>\<close>

lemma observer_keep_step:
  assumes c: "heap w c = Some (Observer L Keep)" and t: "t \<noteq> Cancel"
  shows "deliver (Suc n) c t w = Normal (w\<lparr>heap := (heap w)(c \<mapsto> Observer (L @ [t]) Keep)\<rparr>)"
  using c t by (cases t) (simp_all add: Observer_receive_def)

lemma callback_on_observer:
  assumes c: "heap w c = Some (Observer L Keep)" and cb: "Cancel \<notin> set cb"
  shows "\<exists>w'. run_callback (deliver (Suc n)) cb c w = Normal w' \<and>
     heap w' = (heap w)(c \<mapsto> Observer (L @ cb) Keep) \<and>
     fresh w' = fresh w \<and> applied w' = applied w"
  using assms
proof (induction cb arbitrary: w L)
  case Nil
  then show ?case by (simp add: fun_upd_idem)
next
  case (Cons t cb)
  from Cons.prems have t: "t \<noteq> Cancel" and cb: "Cancel \<notin> set cb" by auto
  define w1 where "w1 = w\<lparr>heap := (heap w)(c \<mapsto> Observer (L @ [t]) Keep)\<rparr>"
  have step: "deliver (Suc n) c t w = Normal w1"
    unfolding w1_def using observer_keep_step [OF Cons.prems(1) t] .
  have c1: "heap w1 c = Some (Observer (L @ [t]) Keep)" by (simp add: w1_def)
  from Cons.IH [OF c1 cb] obtain w' where
    run: "run_callback (deliver (Suc n)) cb c w1 = Normal w'"
    and hp: "heap w' = (heap w1)(c \<mapsto> Observer ((L @ [t]) @ cb) Keep)"
    and rest: "fresh w' = fresh w1" "applied w' = applied w1"
    by blast
  have "run_callback (deliver (Suc n)) (t # cb) c w = Normal w'"
    using step run by (simp del: deliver.simps)
  moreover have "heap w' = (heap w)(c \<mapsto> Observer (L @ t # cb) Keep)"
    using hp by (simp add: w1_def)
  moreover have "fresh w' = fresh w" "applied w' = applied w"
    using rest by (simp_all add: w1_def)
  ultimately show ?case by blast
qed

text \<open>
  Claim C9. \<^verbatim>\<open>FromPublisherOperator::subscribe(consumer)\<close> is the wrapped callback run on
  that consumer and nothing else: no bridge is allocated and no other object is touched.
  Whatever calls the callback makes on a recording consumer, the consumer receives exactly
  those calls, in that order, with their arguments as they are; for the callback that
  calls \<^verbatim>\<open>onSubscribe(h)\<close> and then \<^verbatim>\<open>onSuccess(7)\<close> that is the sequence
  \<^verbatim>\<open>onSubscribe(h)\<close>, \<^verbatim>\<open>onSuccess(7)\<close>.
\<close>

theorem from_publisher_runs_callback_on_consumer:
  assumes c: "heap w c = Some (Observer L Keep)"
    and cb: "Cancel \<notin> set callback"
    and fuel: "0 < fuel"
  shows "subscribe (FromPublisherOperator callback) fuel c w
       = run_callback (deliver fuel) callback c w \<and>
     returned (subscribe (FromPublisherOperator callback) fuel c w) \<and>
     received_by c (final (subscribe (FromPublisherOperator callback) fuel c w)) = L @ callback \<and>
     heap (final (subscribe (FromPublisherOperator callback) fuel c w))
       = (heap w)(c \<mapsto> Observer (L @ callback) Keep) \<and>
     fresh (final (subscribe (FromPublisherOperator callback) fuel c w)) = fresh w"
proof -
  obtain n where n: "fuel = Suc n" using fuel_ge1 [OF fuel] by blast
  from callback_on_observer [OF c cb, of n] obtain w' where
    "run_callback (deliver (Suc n)) callback c w = Normal w'"
    "heap w' = (heap w)(c \<mapsto> Observer (L @ callback) Keep)" "fresh w' = fresh w"
    by blast
  then show ?thesis
    unfolding n by (simp add: FromPublisherOperator_subscribe_def received_by_def)
qed

theorem from_publisher_runs_callback_on_consumer_witness:
  "heap (world0 Keep) 0 = Some (Observer [] Keep) \<and>
   Cancel \<notin> set [OnSubscribe 1, OnSuccess 7 :: (int, string) call] \<and> (0::nat) < 1 \<and>
   returned (subscribe (FromPublisherOperator [OnSubscribe 1, OnSuccess 7]) 1 0 (world0 Keep)) \<and>
   received_by 0 (final (subscribe (FromPublisherOperator [OnSubscribe 1, OnSuccess 7]) 1 0
                           (world0 Keep)))
     = [OnSubscribe 1, OnSuccess 7] \<and>
   fresh (final (subscribe (FromPublisherOperator [OnSubscribe 1, OnSuccess 7]) 1 0
                           (world0 Keep))) = 2"
  using from_publisher_runs_callback_on_consumer
    [where w = "world0 Keep" and c = 0 and L = "[]"
       and callback = "[OnSubscribe 1, OnSuccess 7]" and fuel = 1]
  by (simp add: world0_def subscribe_defs method_defs observe_defs)

end
